theory Spec2Isabelle
  imports Complex_Main "HOL-Library.Multiset"
begin

section \<open>DBS kinematic analysis: aggregation, improvement, weighting and ranking\<close>

text \<open>
  A shallow embedding of \<^verbatim>\<open>dbs_analysis_library/analysis.py\<close>, of
  \<^verbatim>\<open>sort_condition_key\<close> from \<^verbatim>\<open>processing.py\<close> and of the table
  \<^verbatim>\<open>parameter_directions\<close> from \<^verbatim>\<open>utils.py\<close>.

  Conventions of the model.
  \<^item> Numbers are exact reals; a pandas NaN is \<open>None\<close>. Rounding and infinities of
    binary floating point are outside the model.
  \<^item> Strings are lists of 8-bit characters; condition names are taken to be ASCII.
  \<^item> A Python dict is an association list in insertion order, with distinct keys.
  \<^item> A pandas Series is an association list from label to value. A DataFrame is a
    record of its row labels, its column labels and a cell function, which is meant only
    at a row label and a column label of the frame. Column labels are kept in order of
    first appearance; pandas may order them otherwise and no statement here depends on
    that order.
  \<^item> \<^verbatim>\<open>Series.sort_values\<close> is called with its default \<^verbatim>\<open>kind\<close>
    (quicksort), for which the library promises a sorted permutation and no order among
    equal keys. The sort of the defined scores is therefore a parameter of the model.
\<close>

subsection \<open>Tables\<close>

record frame =
  index :: "string list"
  columns :: "string list"
  value_at :: "string \<Rightarrow> string \<Rightarrow> real option"

definition empty_frame :: frame where
  "empty_frame = \<lparr>index = [], columns = [], value_at = (\<lambda>c p. None)\<rparr>"

definition frame_empty :: "frame \<Rightarrow> bool" where
  "frame_empty df \<longleftrightarrow> index df = [] \<or> columns df = []"

type_synonym series = "(string \<times> real option) list"

fun unique_labels :: "string list \<Rightarrow> string list" where
  "unique_labels [] = []"
| "unique_labels (x # xs) = x # filter (\<lambda>y. y \<noteq> x) (unique_labels xs)"

definition series_get :: "series \<Rightarrow> string \<Rightarrow> real option" where
  "series_get s p = (case map_of s p of Some v \<Rightarrow> v | None \<Rightarrow> None)"

definition present :: "real option list \<Rightarrow> real list" where
  "present cs = List.map_filter id cs"

definition nanmean :: "real option list \<Rightarrow> real option" where
  "nanmean cs =
     (let xs = present cs
      in if xs = [] then None else Some (sum_list xs / real (length xs)))"

definition nanstd :: "real option list \<Rightarrow> real option" where
  "nanstd cs =
     (let xs = present cs; n = length xs
      in if n \<le> 1 then None
         else Some (sqrt (sum_list (map (\<lambda>x. (x - sum_list xs / real n)\<^sup>2) xs)
                          / real (n - 1))))"

fun nan_lift2 :: "(real \<Rightarrow> real \<Rightarrow> real) \<Rightarrow> real option \<Rightarrow> real option \<Rightarrow> real option" where
  "nan_lift2 f (Some x) (Some y) = Some (f x y)"
| "nan_lift2 f _ _ = None"

subsection \<open>The condition ordering (processing.py)\<close>

definition lower_char :: "char \<Rightarrow> char" where
  "lower_char c =
     (case map_of (zip ''ABCDEFGHIJKLMNOPQRSTUVWXYZ'' ''abcdefghijklmnopqrstuvwxyz'') c of
        Some l \<Rightarrow> l | None \<Rightarrow> c)"

definition lower :: "string \<Rightarrow> string" where
  "lower s = map lower_char s"

fun contains :: "string \<Rightarrow> string \<Rightarrow> bool" where
  "contains p [] = (p = [])"
| "contains p (c # cs) = (take (length p) (c # cs) = p \<or> contains p cs)"

definition is_digit :: "char \<Rightarrow> bool" where
  "is_digit c \<longleftrightarrow> c \<in> set ''0123456789''"

definition is_space :: "char \<Rightarrow> bool" where
  "is_space c \<longleftrightarrow> (of_char c :: nat) \<in> {9, 10, 11, 12, 13, 28, 29, 30, 31, 32}"

definition digit_value :: "char \<Rightarrow> nat" where
  "digit_value c = (of_char c :: nat) - 48"

definition int_of_digits :: "string \<Rightarrow> nat" where
  "int_of_digits ds = foldl (\<lambda>n d. 10 * n + digit_value d) 0 ds"

definition match_number :: "string \<Rightarrow> nat option" where
  "match_number s =
     (case s of
        [] \<Rightarrow> None
      | c # rest \<Rightarrow>
          if is_space c \<and> takeWhile is_digit rest \<noteq> []
            then Some (int_of_digits (takeWhile is_digit rest))
          else if takeWhile is_digit s \<noteq> []
            then Some (int_of_digits (takeWhile is_digit s))
          else None)"

definition match_here :: "string \<Rightarrow> nat option" where
  "match_here s =
     (if take 2 s = ''pr'' then match_number (drop 2 s)
      else if take 5 s = ''level'' then match_number (drop 5 s)
      else None)"

fun re_search :: "string \<Rightarrow> nat option" where
  "re_search [] = None"
| "re_search (c # cs) =
     (case match_here (c # cs) of Some n \<Rightarrow> Some n | None \<Rightarrow> re_search cs)"

definition sort_condition_key :: "string \<Rightarrow> nat" where
  "sort_condition_key condition =
     (let condition_lower = lower condition
      in if contains ''dbs off'' condition_lower then 0
         else case re_search condition_lower of
                Some n \<Rightarrow> n
              | None \<Rightarrow>
                  if contains ''dbs on'' condition_lower then 100
                  else if contains ''med on'' condition_lower then 200
                  else 500)"

subsection \<open>The parameter directions (utils.py)\<close>

datatype direction = Higher | Lower

definition parameter_directions :: "(string \<times> direction) list" where
  "parameter_directions =
     [(''MeanAmplitude'', Higher), (''StdAmplitude'', Lower),
      (''MeanSpeed'', Higher), (''StdSpeed'', Lower),
      (''MeanRMSVelocity'', Higher), (''StdRMSVelocity'', Lower),
      (''MeanOpeningSpeed'', Higher), (''StdOpeningSpeed'', Lower),
      (''MeanClosingSpeed'', Higher), (''StdClosingSpeed'', Lower),
      (''MeanCycleDuration'', Lower), (''StdCycleDuration'', Lower),
      (''RangeCycleDuration'', Lower), (''Frequency'', Higher),
      (''AmplitudeDecay'', Lower), (''VelocityDecay'', Lower),
      (''RateDecay'', Lower), (''CVAmplitude'', Lower),
      (''CVCycleDuration'', Lower), (''CVSpeed'', Lower),
      (''CVRMSVelocity'', Lower), (''CVOpeningSpeed'', Lower),
      (''CVClosingSpeed'', Lower)]"

subsection \<open>The Trial Aggregator: aggregate_task_data_by_hand\<close>

text \<open>
  A value of the \<^verbatim>\<open>Value\<close> column either coerces to a number under
  \<^verbatim>\<open>pd.to_numeric(errors='coerce')\<close> or becomes NaN. An element of a trial list
  is a table with the columns \<^verbatim>\<open>Attribute\<close> and \<^verbatim>\<open>Value\<close>, or anything
  else, which the loop skips. The same for the two levels of dicts.
\<close>

datatype raw_value = Numeric real | NonNumeric

datatype trial = DataFrame "(string \<times> raw_value) list" | NotAFrame

datatype hand_entry = HandDict "(string \<times> trial list) list" | NotAHandDict

datatype task_data = TaskDict "(string \<times> hand_entry) list" | NotADict

fun to_numeric :: "raw_value \<Rightarrow> real option" where
  "to_numeric (Numeric r) = Some r"
| "to_numeric NonNumeric = None"

fun trial_series :: "trial \<Rightarrow> series option" where
  "trial_series (DataFrame rows) = Some (map (\<lambda>(a, v). (a, to_numeric v)) rows)"
| "trial_series NotAFrame = None"

definition series_list_of :: "trial list \<Rightarrow> series list" where
  "series_list_of dfs = List.map_filter trial_series dfs"

definition concat_mean :: "series list \<Rightarrow> series" where
  "concat_mean ss =
     map (\<lambda>p. (p, nanmean (map (\<lambda>s. series_get s p) ss)))
         (unique_labels (concat (map (map fst) ss)))"

fun hand_trials :: "hand_entry \<Rightarrow> string \<Rightarrow> trial list option" where
  "hand_trials (HandDict hand_dict) hand = map_of hand_dict hand"
| "hand_trials NotAHandDict hand = None"

definition aggregate_condition :: "string \<Rightarrow> hand_entry \<Rightarrow> series option" where
  "aggregate_condition hand e =
     (case hand_trials e hand of
        None \<Rightarrow> None
      | Some dfs \<Rightarrow>
          (let series_list = series_list_of dfs
           in if series_list = [] then None else Some (concat_mean series_list)))"

definition aggregated_data :: "(string \<times> hand_entry) list \<Rightarrow> string \<Rightarrow> (string \<times> series) list" where
  "aggregated_data items hand =
     List.map_filter (\<lambda>(condition, e). map_option (Pair condition) (aggregate_condition hand e))
       items"

definition frame_of_rows :: "(string \<times> series) list \<Rightarrow> frame" where
  "frame_of_rows rows =
     \<lparr>index = map fst rows,
      columns = unique_labels (concat (map (\<lambda>(c, s). map fst s) rows)),
      value_at = (\<lambda>c p. case map_of rows c of None \<Rightarrow> None | Some s \<Rightarrow> series_get s p)\<rparr>"

definition reindex :: "frame \<Rightarrow> string list \<Rightarrow> frame" where
  "reindex df labels = df\<lparr>index := labels\<rparr>"

definition dropna_all :: "frame \<Rightarrow> frame" where
  "dropna_all df =
     df\<lparr>index := filter (\<lambda>c. \<exists>p \<in> set (columns df). value_at df c p \<noteq> None) (index df)\<rparr>"

fun aggregate_task_data_by_hand :: "task_data \<Rightarrow> string \<Rightarrow> frame" where
  "aggregate_task_data_by_hand NotADict hand = empty_frame"
| "aggregate_task_data_by_hand (TaskDict items) hand =
     (let agg = aggregated_data items hand
      in if agg = [] then empty_frame
         else let summary_df = frame_of_rows agg
              in dropna_all (reindex summary_df (sort_key sort_condition_key (index summary_df))))"

subsection \<open>The pipeline: perform_full_hand_analysis\<close>

record results =
  summary_df :: frame
  improvement_df :: frame
  responsiveness_scores :: "(string \<times> real) list"
  final_dynamic_weights :: "(string \<times> real) list"
  dynamic_scores :: "(string \<times> real option) list"
  ranked_names :: "string list"
  ranked_scores :: "real option list"

type_synonym sorter = "(string \<times> real) list \<Rightarrow> (string \<times> real) list"

definition subtract_baseline :: "frame \<Rightarrow> string list \<Rightarrow> string \<Rightarrow> frame" where
  "subtract_baseline summary on_conditions baseline =
     \<lparr>index = on_conditions,
      columns = columns summary,
      value_at = (\<lambda>c p. nan_lift2 (-) (value_at summary c p) (value_at summary baseline p))\<rparr>"

definition negate_column :: "frame \<Rightarrow> string \<Rightarrow> frame" where
  "negate_column df param =
     df\<lparr>value_at := (\<lambda>c p. if p = param then nan_lift2 (*) (value_at df c p) (Some (- 1))
                            else value_at df c p)\<rparr>"

definition apply_directions :: "(string \<times> direction) list \<Rightarrow> frame \<Rightarrow> frame" where
  "apply_directions directions df =
     fold (\<lambda>(param, direction) d.
             if param \<in> set (columns d) \<and> direction = Lower then negate_column d param else d)
          directions df"

definition column_values :: "frame \<Rightarrow> string \<Rightarrow> real option list" where
  "column_values df p = map (\<lambda>c. value_at df c p) (index df)"

definition fillna0 :: "real option \<Rightarrow> real" where
  "fillna0 v = (case v of None \<Rightarrow> 0 | Some x \<Rightarrow> x)"

definition std_fillna :: "frame \<Rightarrow> (string \<times> real) list" where
  "std_fillna df = map (\<lambda>p. (p, fillna0 (nanstd (column_values df p)))) (columns df)"

definition epsilon :: real where
  "epsilon = 1 / 10 ^ 9"

definition responsiveness :: "frame \<Rightarrow> (string \<times> real) list" where
  "responsiveness df = filter (\<lambda>(p, s). s > epsilon) (std_fillna df)"

definition blend_weights :: "real \<Rightarrow> (string \<times> real) list \<Rightarrow> (string \<times> real) list" where
  "blend_weights shrinkage_lambda scores =
     (let total = sum_list (map snd scores);
          n_responsive_params = length scores
      in map (\<lambda>(p, s). (p, (1 - shrinkage_lambda) * (s / total)
                           + shrinkage_lambda * (1 / real n_responsive_params)))
             scores)"

definition common_params :: "frame \<Rightarrow> (string \<times> real) list \<Rightarrow> string list" where
  "common_params df weights = filter (\<lambda>p. p \<in> set (map fst weights)) (columns df)"

definition dot_row :: "frame \<Rightarrow> (string \<times> real) list \<Rightarrow> string list \<Rightarrow> string \<Rightarrow> real option" where
  "dot_row df weights params c =
     foldl (nan_lift2 (+)) (Some 0)
       (map (\<lambda>p. nan_lift2 (*) (value_at df c p) (map_of weights p)) params)"

definition dot_scores :: "frame \<Rightarrow> (string \<times> real) list \<Rightarrow> (string \<times> real option) list" where
  "dot_scores df weights =
     map (\<lambda>c. (c, dot_row df weights (common_params df weights) c)) (index df)"

definition defined_scores :: "(string \<times> real option) list \<Rightarrow> (string \<times> real) list" where
  "defined_scores s = List.map_filter (\<lambda>(c, v). map_option (Pair c) v) s"

definition sort_values_descending :: "sorter \<Rightarrow> (string \<times> real option) list \<Rightarrow> (string \<times> real option) list" where
  "sort_values_descending sort_desc s =
     map (\<lambda>(c, x). (c, Some x)) (sort_desc (defined_scores s))
     @ filter (\<lambda>(c, v). v = None) s"

definition perform_full_hand_analysis ::
    "sorter \<Rightarrow> task_data \<Rightarrow> string \<Rightarrow> string \<Rightarrow> real \<Rightarrow> results" where
  "perform_full_hand_analysis sort_desc data_by_condition hand baseline shrinkage_lambda =
     (let summary = aggregate_task_data_by_hand data_by_condition hand;
          res = \<lparr>summary_df = summary, improvement_df = empty_frame,
                 responsiveness_scores = [], final_dynamic_weights = [],
                 dynamic_scores = [], ranked_names = [], ranked_scores = []\<rparr>
      in if frame_empty summary \<or> baseline \<notin> set (index summary) then res
         else
           let on_conditions = filter (\<lambda>c. c \<noteq> baseline) (index summary)
           in if on_conditions = [] then res
              else
                let raw_change_df = subtract_baseline summary on_conditions baseline;
                    improvement = apply_directions parameter_directions raw_change_df;
                    res = res\<lparr>improvement_df := improvement\<rparr>;
                    scores = responsiveness improvement;
                    res = res\<lparr>responsiveness_scores := scores\<rparr>
                in if scores = [] \<or> sum_list (map snd scores) = 0 then res
                   else
                     let weights = blend_weights shrinkage_lambda scores;
                         res = res\<lparr>final_dynamic_weights := weights\<rparr>;
                         dscores = dot_scores improvement weights;
                         res = res\<lparr>dynamic_scores := dscores\<rparr>;
                         ranked = sort_values_descending sort_desc dscores
                     in res\<lparr>ranked_names := map fst ranked, ranked_scores := map snd ranked\<rparr>)"

text \<open>What the library promises of the default sort: a descending permutation.\<close>

definition sorts_descending :: "sorter \<Rightarrow> bool" where
  "sorts_descending sort_desc \<longleftrightarrow>
     (\<forall>xs. mset (sort_desc xs) = mset xs \<and> sorted_wrt (\<lambda>a b. snd b \<le> snd a) (sort_desc xs))"

subsection \<open>Names for the stages of the pipeline\<close>

text \<open>
  The statements below speak of the result every field of which is still empty, of the
  rows that are compared with the baseline, of the guard that lets the pipeline go on to
  the improvement matrix, and of that matrix.
\<close>

definition initial_results :: "frame \<Rightarrow> results" where
  "initial_results summary =
     \<lparr>summary_df = summary, improvement_df = empty_frame,
      responsiveness_scores = [], final_dynamic_weights = [],
      dynamic_scores = [], ranked_names = [], ranked_scores = []\<rparr>"

definition on_conditions_of :: "frame \<Rightarrow> string \<Rightarrow> string list" where
  "on_conditions_of summary baseline = filter (\<lambda>c. c \<noteq> baseline) (index summary)"

definition reaches_improvement :: "frame \<Rightarrow> string \<Rightarrow> bool" where
  "reaches_improvement summary baseline \<longleftrightarrow>
     \<not> frame_empty summary \<and> baseline \<in> set (index summary)
     \<and> on_conditions_of summary baseline \<noteq> []"

definition improvement_of :: "frame \<Rightarrow> string \<Rightarrow> frame" where
  "improvement_of summary baseline =
     apply_directions parameter_directions
       (subtract_baseline summary (on_conditions_of summary baseline) baseline)"

subsection \<open>A worked example\<close>

text \<open>
  Three conditions for the right hand, two parameters, one malformed value and one
  element of a trial list that is no table. The means are 8 and 5 for the baseline, 11 and
  3 for program 1, 9 and 6 for program 2.
\<close>

definition example_pr1_trials :: "trial list" where
  "example_pr1_trials =
     [DataFrame [(''MeanSpeed'', Numeric 10), (''StdSpeed'', Numeric 3)],
      NotAFrame,
      DataFrame [(''MeanSpeed'', Numeric 12)]]"

definition example_items :: "(string \<times> hand_entry) list" where
  "example_items =
     [(''Med Off - DBS On - Pr2'',
         HandDict [(''Right'', [DataFrame [(''MeanSpeed'', Numeric 9), (''StdSpeed'', Numeric 6)]])]),
      (''Med Off - DBS Off'',
         HandDict [(''Left'', [DataFrame [(''MeanSpeed'', Numeric 1)]]),
                   (''Right'', [DataFrame [(''MeanSpeed'', Numeric 8), (''StdSpeed'', Numeric 5)],
                                DataFrame [(''MeanSpeed'', Numeric 8), (''StdSpeed'', NonNumeric)]])]),
      (''Med Off - DBS On - Pr1'', HandDict [(''Right'', example_pr1_trials)])]"

definition example_data :: task_data where
  "example_data = TaskDict example_items"

definition example_baseline :: string where
  "example_baseline = ''Med Off - DBS Off''"

text \<open>A sort that the library could use: descending, equal scores in their given order.\<close>

definition stable_descending :: sorter where
  "stable_descending xs = sort_key (\<lambda>x. - snd x) xs"

definition example_results :: results where
  "example_results =
     perform_full_hand_analysis stable_descending example_data ''Right'' example_baseline (1 / 10)"

subsection \<open>The responsiveness of a column, in the words of the specification\<close>

text \<open>
  The defined cells of a column, and the sample standard deviation of a list of numbers,
  taken as 0 where it is undefined (fewer than two numbers). Scenario A of the
  specification: one condition beside the baseline.
\<close>

definition defined_cells :: "frame \<Rightarrow> string \<Rightarrow> real list" where
  "defined_cells df p = List.map_filter (\<lambda>c. value_at df c p) (index df)"

definition spec_responsiveness :: "real list \<Rightarrow> real" where
  "spec_responsiveness xs =
     (if length xs < 2 then 0
      else sqrt ((\<Sum>x\<leftarrow>xs. (x - sum_list xs / real (length xs))\<^sup>2) / (real (length xs) - 1)))"

definition scenario_A :: task_data where
  "scenario_A = TaskDict
     [(''DBS On - Pr1'',
         HandDict [(''Right'', [DataFrame [(''MeanSpeed'', Numeric 10)],
                                DataFrame [(''MeanSpeed'', Numeric 12)]])]),
      (''Med Off - DBS Off'',
         HandDict [(''Right'', [DataFrame [(''MeanSpeed'', Numeric 8)],
                                DataFrame [(''MeanSpeed'', Numeric 8)]])])]"

definition scenario_A_results :: results where
  "scenario_A_results =
     perform_full_hand_analysis stable_descending scenario_A ''Right'' ''Med Off - DBS Off'' (1 / 10)"

subsection \<open>Sorting the scores\<close>





text \<open>An example in which one value of program 2 is malformed.\<close>

definition missing_data :: task_data where
  "missing_data = TaskDict
     [(''Med Off - DBS Off'',
         HandDict [(''Right'', [DataFrame [(''MeanSpeed'', Numeric 8), (''MeanAmplitude'', Numeric 4)]])]),
      (''Med Off - DBS On - Pr1'',
         HandDict [(''Right'', [DataFrame [(''MeanSpeed'', Numeric 9), (''MeanAmplitude'', Numeric 6)]])]),
      (''Med Off - DBS On - Pr2'',
         HandDict [(''Right'', [DataFrame [(''MeanSpeed'', Numeric 10), (''MeanAmplitude'', NonNumeric)]])]),
      (''Med Off - DBS On - Pr3'',
         HandDict [(''Right'', [DataFrame [(''MeanSpeed'', Numeric 11), (''MeanAmplitude'', Numeric 5)]])])]"

definition missing_results :: results where
  "missing_results =
     perform_full_hand_analysis stable_descending missing_data ''Right'' example_baseline (1 / 10)"

subsection \<open>The summary cell, in the words of the specification\<close>

text \<open>
  The value of a parameter in one trial: the number its row coerces to, and missing when
  the row is absent, its value is not numeric, or the element is no table. The mean of a
  parameter over the trials in which it is present. Well-formed input: a dict has
  distinct keys and a trial table has one row for an attribute.
\<close>

fun trial_value :: "trial \<Rightarrow> string \<Rightarrow> real option" where
  "trial_value (DataFrame rows) p =
     (case map_of rows p of Some (Numeric r) \<Rightarrow> Some r | _ \<Rightarrow> None)"
| "trial_value NotAFrame p = None"

definition spec_cell_mean :: "trial list \<Rightarrow> string \<Rightarrow> real option" where
  "spec_cell_mean dfs p =
     (let vs = List.map_filter (\<lambda>t. trial_value t p) dfs
      in if vs = [] then None else Some (sum_list vs / real (length vs)))"

fun well_formed_trial :: "trial \<Rightarrow> bool" where
  "well_formed_trial (DataFrame rows) = distinct (map fst rows)"
| "well_formed_trial NotAFrame = True"

fun well_formed_entry :: "hand_entry \<Rightarrow> bool" where
  "well_formed_entry (HandDict hand_dict) =
     (distinct (map fst hand_dict)
      \<and> list_all (\<lambda>(h, dfs). list_all well_formed_trial dfs) hand_dict)"
| "well_formed_entry NotAHandDict = True"

fun well_formed :: "task_data \<Rightarrow> bool" where
  "well_formed (TaskDict items) =
     (distinct (map fst items) \<and> list_all (\<lambda>(c, e). well_formed_entry e) items)"
| "well_formed NotADict = True"

subsection \<open>The domain ordering, in the words of the specification\<close>






subsection \<open>Permuting the trial lists\<close>





section \<open>Properties\<close>

subsection \<open>Arithmetic of the weights\<close>




lemma responsiveness_gt: "(p, s) \<in> set (responsiveness df) \<Longrightarrow> epsilon < s"
  by (auto simp: responsiveness_def)

lemma epsilon_pos: "0 < epsilon"
  by (simp add: epsilon_def)

lemma sum_list_pos_real:
  fixes xs :: "real list"
  assumes "xs \<noteq> []" and "\<forall>x \<in> set xs. 0 < x"
  shows "0 < sum_list xs"
  using assms by (induction xs) (auto intro: add_pos_nonneg sum_list_nonneg less_imp_le)

lemma responsiveness_sum_pos:
  "responsiveness df \<noteq> [] \<Longrightarrow> 0 < sum_list (map snd (responsiveness df))"
  using epsilon_pos by (intro sum_list_pos_real) (auto dest!: responsiveness_gt intro: less_trans)

subsection \<open>The branches of perform_full_hand_analysis\<close>

lemma pfha_aborted:
  assumes "\<not> reaches_improvement (aggregate_task_data_by_hand d h) b"
  shows "perform_full_hand_analysis srt d h b lam
         = initial_results (aggregate_task_data_by_hand d h)"
  using assms
  by (auto simp: perform_full_hand_analysis_def reaches_improvement_def on_conditions_of_def
      initial_results_def Let_def)

lemma pfha_summary_df:
  "summary_df (perform_full_hand_analysis srt d h b lam) = aggregate_task_data_by_hand d h"
  by (simp add: perform_full_hand_analysis_def Let_def)

lemma pfha_improvement_df:
  assumes "reaches_improvement (aggregate_task_data_by_hand d h) b"
  shows "improvement_df (perform_full_hand_analysis srt d h b lam)
         = improvement_of (aggregate_task_data_by_hand d h) b"
  using assms
  by (simp add: perform_full_hand_analysis_def reaches_improvement_def on_conditions_of_def
      improvement_of_def Let_def)

lemma pfha_responsiveness:
  assumes "reaches_improvement (aggregate_task_data_by_hand d h) b"
  shows "responsiveness_scores (perform_full_hand_analysis srt d h b lam)
         = responsiveness (improvement_of (aggregate_task_data_by_hand d h) b)"
  using assms
  by (simp add: perform_full_hand_analysis_def reaches_improvement_def on_conditions_of_def
      improvement_of_def Let_def)

lemma pfha_no_responsive:
  assumes "reaches_improvement (aggregate_task_data_by_hand d h) b"
      and "responsiveness (improvement_of (aggregate_task_data_by_hand d h) b) = []"
  shows "perform_full_hand_analysis srt d h b lam
         = (initial_results (aggregate_task_data_by_hand d h))
             \<lparr>improvement_df := improvement_of (aggregate_task_data_by_hand d h) b\<rparr>"
  using assms
  by (simp add: perform_full_hand_analysis_def reaches_improvement_def on_conditions_of_def
      improvement_of_def initial_results_def Let_def)

lemma pfha_weights:
  assumes "reaches_improvement (aggregate_task_data_by_hand d h) b"
      and "responsiveness (improvement_of (aggregate_task_data_by_hand d h) b) \<noteq> []"
  shows "final_dynamic_weights (perform_full_hand_analysis srt d h b lam)
         = blend_weights lam (responsiveness (improvement_of (aggregate_task_data_by_hand d h) b))"
  using assms responsiveness_sum_pos[of "improvement_of (aggregate_task_data_by_hand d h) b"]
  by (simp add: perform_full_hand_analysis_def reaches_improvement_def on_conditions_of_def
      improvement_of_def Let_def)

lemma pfha_dynamic_scores:
  assumes "reaches_improvement (aggregate_task_data_by_hand d h) b"
      and "responsiveness (improvement_of (aggregate_task_data_by_hand d h) b) \<noteq> []"
  shows "dynamic_scores (perform_full_hand_analysis srt d h b lam)
         = dot_scores (improvement_of (aggregate_task_data_by_hand d h) b)
             (blend_weights lam (responsiveness (improvement_of (aggregate_task_data_by_hand d h) b)))"
  using assms responsiveness_sum_pos[of "improvement_of (aggregate_task_data_by_hand d h) b"]
  by (simp add: perform_full_hand_analysis_def reaches_improvement_def on_conditions_of_def
      improvement_of_def Let_def)

lemma pfha_ranked:
  assumes "reaches_improvement (aggregate_task_data_by_hand d h) b"
      and "responsiveness (improvement_of (aggregate_task_data_by_hand d h) b) \<noteq> []"
  shows "ranked_names (perform_full_hand_analysis srt d h b lam)
         = map fst (sort_values_descending srt (dynamic_scores (perform_full_hand_analysis srt d h b lam)))"
    and "ranked_scores (perform_full_hand_analysis srt d h b lam)
         = map snd (sort_values_descending srt (dynamic_scores (perform_full_hand_analysis srt d h b lam)))"
  using assms responsiveness_sum_pos[of "improvement_of (aggregate_task_data_by_hand d h) b"]
  by (simp_all add: perform_full_hand_analysis_def reaches_improvement_def on_conditions_of_def
      improvement_of_def Let_def)

lemma pfha_responsive_reaches:
  assumes "responsiveness_scores (perform_full_hand_analysis srt d h b lam) \<noteq> []"
  shows "reaches_improvement (aggregate_task_data_by_hand d h) b"
proof (rule ccontr)
  assume "\<not> ?thesis"
  from pfha_aborted[OF this] assms show False by (simp add: initial_results_def)
qed

subsection \<open>The worked example, evaluated\<close>

lemma example_reaches:
  "reaches_improvement (aggregate_task_data_by_hand example_data ''Right'') example_baseline"
  by code_simp

lemma example_summary_index:
  "index (aggregate_task_data_by_hand example_data ''Right'')
   = [''Med Off - DBS Off'', ''Med Off - DBS On - Pr1'', ''Med Off - DBS On - Pr2'']"
  by code_simp

lemma example_improvement_shape:
  "index (improvement_of (aggregate_task_data_by_hand example_data ''Right'') example_baseline)
     = [''Med Off - DBS On - Pr1'', ''Med Off - DBS On - Pr2'']"
  "columns (improvement_of (aggregate_task_data_by_hand example_data ''Right'') example_baseline)
     = [''MeanSpeed'', ''StdSpeed'']"
  by code_simp+

lemma example_improvement_columns:
  "column_values (improvement_of (aggregate_task_data_by_hand example_data ''Right'') example_baseline)
     ''MeanSpeed'' = [Some 3, Some 1]"
  "column_values (improvement_of (aggregate_task_data_by_hand example_data ''Right'') example_baseline)
     ''StdSpeed'' = [Some 2, Some (- 1)]"
  by code_simp+

lemma nanstd_two: "nanstd [Some a, Some b] = Some (sqrt ((a - b)\<^sup>2 / 2))"
proof -
  have "(a - (a + b) / 2)\<^sup>2 + (b - (a + b) / 2)\<^sup>2 = (a - b)\<^sup>2 / 2"
    by (simp add: power2_eq_square field_simps)
  then show ?thesis
    by (simp add: nanstd_def present_def List.map_filter_simps)
qed

lemma sqrt_gt_epsilon:
  assumes "1 \<le> x"
  shows "epsilon < sqrt x"
proof -
  have a: "1 \<le> sqrt x" using assms by simp
  have b: "epsilon < 1" by (simp add: epsilon_def)
  from b a show ?thesis by (rule less_le_trans)
qed

lemma example_responsiveness:
  "responsiveness (improvement_of (aggregate_task_data_by_hand example_data ''Right'') example_baseline)
   = [(''MeanSpeed'', sqrt 2), (''StdSpeed'', sqrt (9 / 2))]"
  by (simp add: responsiveness_def std_fillna_def example_improvement_shape
      example_improvement_columns nanstd_two fillna0_def sqrt_gt_epsilon)

subsection \<open>The Regularized Weight Blender\<close>



lemma pfha_responsiveness_lambda:
  "responsiveness_scores (perform_full_hand_analysis srt d h b lam)
   = responsiveness_scores (perform_full_hand_analysis srt' d h b lam')"
proof (cases "reaches_improvement (aggregate_task_data_by_hand d h) b")
  case True
  then show ?thesis by (simp add: pfha_responsiveness)
next
  case False
  then show ?thesis by (simp add: pfha_aborted initial_results_def)
qed

lemma pfha_improvement_index_reaches:
  assumes "c \<in> set (index (improvement_df (perform_full_hand_analysis srt d h b lam)))"
  shows "reaches_improvement (aggregate_task_data_by_hand d h) b"
proof (rule ccontr)
  assume "\<not> ?thesis"
  from pfha_aborted[OF this] assms show False
    by (simp add: initial_results_def empty_frame_def)
qed

text \<open>
  C6. With a nonempty responsiveness vector, shrinkage 0 gives every surviving parameter
  its responsiveness divided by the total responsiveness, and shrinkage 1 gives every
  surviving parameter exactly \<open>1 / k\<close>, \<open>k\<close> the number of surviving parameters.
\<close>

theorem shrinkage_zero_and_one:
  assumes "responsiveness_scores (perform_full_hand_analysis srt d h b lam) = rs"
      and "rs \<noteq> []"
  shows "final_dynamic_weights (perform_full_hand_analysis srt d h b 0)
           = map (\<lambda>(p, s). (p, s / sum_list (map snd rs))) rs
         \<and> final_dynamic_weights (perform_full_hand_analysis srt d h b 1)
           = map (\<lambda>(p, s). (p, 1 / real (length rs))) rs"
proof -
  let ?imp = "improvement_of (aggregate_task_data_by_hand d h) b"
  have r: "reaches_improvement (aggregate_task_data_by_hand d h) b"
    using assms by (intro pfha_responsive_reaches[of srt d h b lam]) simp
  then have rs: "responsiveness ?imp = rs"
    using assms(1) by (simp add: pfha_responsiveness)
  then have ne: "responsiveness ?imp \<noteq> []"
    using assms(2) by simp
  show ?thesis
    by (simp add: pfha_weights[OF r ne] rs blend_weights_def Let_def)
qed

theorem shrinkage_zero_and_one_witness:
  "responsiveness_scores
     (perform_full_hand_analysis stable_descending example_data ''Right'' example_baseline (1 / 10))
     = [(''MeanSpeed'', sqrt 2), (''StdSpeed'', sqrt (9 / 2))]
   \<and> [(''MeanSpeed'', sqrt 2), (''StdSpeed'', sqrt (9 / 2))] \<noteq> []
   \<and> final_dynamic_weights
        (perform_full_hand_analysis stable_descending example_data ''Right'' example_baseline 0)
      = [(''MeanSpeed'', sqrt 2 / (sqrt 2 + sqrt (9 / 2))),
         (''StdSpeed'', sqrt (9 / 2) / (sqrt 2 + sqrt (9 / 2)))]
   \<and> final_dynamic_weights
        (perform_full_hand_analysis stable_descending example_data ''Right'' example_baseline 1)
      = [(''MeanSpeed'', 1 / 2), (''StdSpeed'', 1 / 2)]"
proof -
  have h: "responsiveness_scores
     (perform_full_hand_analysis stable_descending example_data ''Right'' example_baseline (1 / 10))
     = [(''MeanSpeed'', sqrt 2), (''StdSpeed'', sqrt (9 / 2))]"
    by (simp add: pfha_responsiveness[OF example_reaches] example_responsiveness)
  show ?thesis
    using h shrinkage_zero_and_one[OF h] by simp
qed

subsection \<open>The abort paths\<close>

text \<open>
  C4. When the condition summary is empty, or the baseline is not among its row labels,
  or no row other than the baseline remains, the pipeline returns a result that holds the
  summary and has every later field empty: the improvement matrix, the responsiveness
  scores, the final weights, the scores and both lists of the ranking.
\<close>

theorem abort_paths_return_empty_results:
  assumes "S = aggregate_task_data_by_hand d h"
      and "frame_empty S \<or> b \<notin> set (index S) \<or> filter (\<lambda>c. c \<noteq> b) (index S) = []"
  shows "perform_full_hand_analysis srt d h b lam
         = \<lparr>summary_df = S, improvement_df = empty_frame,
            responsiveness_scores = [], final_dynamic_weights = [],
            dynamic_scores = [], ranked_names = [], ranked_scores = []\<rparr>"
proof -
  have "\<not> reaches_improvement (aggregate_task_data_by_hand d h) b"
    using assms by (auto simp: reaches_improvement_def on_conditions_of_def)
  then show ?thesis
    using assms(1) by (simp add: pfha_aborted initial_results_def)
qed

lemma example_no_such_baseline:
  "''Med On - DBS On'' \<notin> set (index (aggregate_task_data_by_hand example_data ''Right''))"
  by (simp add: example_summary_index)

theorem abort_paths_return_empty_results_witness:
  "''Med On - DBS On'' \<notin> set (index (aggregate_task_data_by_hand example_data ''Right''))
   \<and> perform_full_hand_analysis stable_descending example_data ''Right'' ''Med On - DBS On'' (1 / 10)
     = \<lparr>summary_df = aggregate_task_data_by_hand example_data ''Right'',
        improvement_df = empty_frame,
        responsiveness_scores = [], final_dynamic_weights = [],
        dynamic_scores = [], ranked_names = [], ranked_scores = []\<rparr>"
proof -
  have h: "frame_empty (aggregate_task_data_by_hand example_data ''Right'')
      \<or> ''Med On - DBS On'' \<notin> set (index (aggregate_task_data_by_hand example_data ''Right''))
      \<or> filter (\<lambda>c. c \<noteq> ''Med On - DBS On'')
           (index (aggregate_task_data_by_hand example_data ''Right'')) = []"
    using example_no_such_baseline by simp
  show ?thesis
    using example_no_such_baseline abort_paths_return_empty_results[OF refl h] by simp
qed

subsection \<open>The Improvement Calculator\<close>

lemma negate_column_shape [simp]:
  "index (negate_column df q) = index df" "columns (negate_column df q) = columns df"
  by (simp_all add: negate_column_def)

lemma apply_directions_shape:
  "index (apply_directions dirs df) = index df \<and> columns (apply_directions dirs df) = columns df"
  unfolding apply_directions_def
  by (induction dirs arbitrary: df) (auto simp: case_prod_beta)

lemma apply_directions_value:
  assumes "distinct (map fst dirs)"
  shows "value_at (apply_directions dirs df) c p
         = (if p \<in> set (columns df) \<and> map_of dirs p = Some Lower
            then nan_lift2 (*) (value_at df c p) (Some (- 1))
            else value_at df c p)"
  using assms
proof (induction dirs arbitrary: df)
  case Nil
  then show ?case by (simp add: apply_directions_def)
next
  case (Cons a dirs)
  obtain q dir where a: "a = (q, dir)" by (cases a)
  let ?d = "if q \<in> set (columns df) \<and> dir = Lower then negate_column df q else df"
  have step: "apply_directions ((q, dir) # dirs) df = apply_directions dirs ?d"
    by (simp add: apply_directions_def)
  have dist: "distinct (map fst dirs)" and q: "q \<notin> fst ` set dirs"
    using Cons.prems by (simp_all add: a)
  have none: "map_of dirs q = None"
    using q by (simp add: map_of_eq_None_iff)
  have ih: "value_at (apply_directions dirs ?d) c p
         = (if p \<in> set (columns ?d) \<and> map_of dirs p = Some Lower
            then nan_lift2 (*) (value_at ?d c p) (Some (- 1))
            else value_at ?d c p)"
    by (rule Cons.IH[OF dist])
  show ?case
    unfolding a step ih
    using none by (auto simp: negate_column_def)
qed

lemma parameter_directions_distinct: "distinct (map fst parameter_directions)"
  by (simp add: parameter_directions_def)

lemma improvement_of_shape:
  "index (improvement_of S b) = on_conditions_of S b"
  "columns (improvement_of S b) = columns S"
  by (simp_all add: improvement_of_def apply_directions_shape subtract_baseline_def)

lemma improvement_of_value:
  assumes "p \<in> set (columns S)"
  shows "value_at (improvement_of S b) c p
         = (if map_of parameter_directions p = Some Lower
            then nan_lift2 (*) (nan_lift2 (-) (value_at S c p) (value_at S b p)) (Some (- 1))
            else nan_lift2 (-) (value_at S c p) (value_at S b p))"
  using assms
  by (simp add: improvement_of_def apply_directions_value[OF parameter_directions_distinct]
      subtract_baseline_def)

text \<open>
  C2. In the improvement matrix a column whose parameter the direction table marks
  "lower" is the raw difference (row minus baseline row) times -1, and every other
  column, marked "higher" or absent from the table, is the raw difference. Hence a
  decrease of a "lower" parameter and an increase of a "higher" parameter both give a
  positive improvement, and a parameter absent from the table keeps the raw sign.
\<close>

theorem direction_correction:
  assumes "R = perform_full_hand_analysis srt d h b lam"
      and "c \<in> set (index (improvement_df R))"
      and "p \<in> set (columns (improvement_df R))"
  shows "(map_of parameter_directions p = Some Lower \<longrightarrow>
            value_at (improvement_df R) c p
              = nan_lift2 (*) (nan_lift2 (-) (value_at (summary_df R) c p)
                                          (value_at (summary_df R) b p)) (Some (- 1)))
       \<and> (map_of parameter_directions p \<noteq> Some Lower \<longrightarrow>
            value_at (improvement_df R) c p
              = nan_lift2 (-) (value_at (summary_df R) c p) (value_at (summary_df R) b p))
       \<and> (\<forall>x v. value_at (summary_df R) c p = Some x \<and> value_at (summary_df R) b p = Some v \<longrightarrow>
            (map_of parameter_directions p = Some Lower \<and> x < v \<longrightarrow>
               (\<exists>i. value_at (improvement_df R) c p = Some i \<and> 0 < i))
          \<and> (map_of parameter_directions p = Some Higher \<and> v < x \<longrightarrow>
               (\<exists>i. value_at (improvement_df R) c p = Some i \<and> 0 < i))
          \<and> (map_of parameter_directions p = None \<longrightarrow>
               value_at (improvement_df R) c p = Some (x - v)))"
proof -
  let ?S = "aggregate_task_data_by_hand d h"
  have r: "reaches_improvement ?S b"
    using assms(1,2) by (auto intro: pfha_improvement_index_reaches)
  have imp: "improvement_df R = improvement_of ?S b"
    using assms(1) r by (simp add: pfha_improvement_df)
  have S: "summary_df R = ?S"
    using assms(1) by (simp add: pfha_summary_df)
  have p: "p \<in> set (columns ?S)"
    using assms(3) by (simp add: imp improvement_of_shape)
  show ?thesis
    by (auto simp: imp S improvement_of_value[OF p])
qed

lemma example_results_improvement:
  "improvement_df example_results
   = improvement_of (aggregate_task_data_by_hand example_data ''Right'') example_baseline"
  unfolding example_results_def by (rule pfha_improvement_df[OF example_reaches])

lemma example_direction_StdSpeed: "map_of parameter_directions ''StdSpeed'' = Some Lower"
  by code_simp

theorem direction_correction_witness:
  "''Med Off - DBS On - Pr1'' \<in> set (index (improvement_df example_results))
   \<and> ''StdSpeed'' \<in> set (columns (improvement_df example_results))
   \<and> map_of parameter_directions ''StdSpeed'' = Some Lower
   \<and> value_at (summary_df example_results) ''Med Off - DBS On - Pr1'' ''StdSpeed'' = Some 3
   \<and> value_at (summary_df example_results) example_baseline ''StdSpeed'' = Some 5
   \<and> value_at (improvement_df example_results) ''Med Off - DBS On - Pr1'' ''StdSpeed'' = Some 2"
proof -
  have c: "''Med Off - DBS On - Pr1'' \<in> set (index (improvement_df example_results))"
    by (simp add: example_results_improvement example_improvement_shape)
  have p: "''StdSpeed'' \<in> set (columns (improvement_df example_results))"
    by (simp add: example_results_improvement example_improvement_shape)
  have x: "value_at (summary_df example_results) ''Med Off - DBS On - Pr1'' ''StdSpeed'' = Some 3"
    unfolding example_results_def pfha_summary_df by code_simp
  have v: "value_at (summary_df example_results) example_baseline ''StdSpeed'' = Some 5"
    unfolding example_results_def pfha_summary_df by code_simp
  show ?thesis
    using direction_correction[OF example_results_def c p] c p x v example_direction_StdSpeed
    by simp
qed

subsection \<open>The Responsiveness Estimator\<close>

lemma map_filter_id_map: "List.map_filter id (map f xs) = List.map_filter f xs"
  by (induction xs) (simp_all split: option.split)

lemma present_column_values: "present (column_values df p) = defined_cells df p"
  by (simp add: present_def column_values_def defined_cells_def map_filter_id_map)

lemma std_is_spec_responsiveness:
  "fillna0 (nanstd (column_values df p)) = spec_responsiveness (defined_cells df p)"
proof -
  let ?xs = "defined_cells df p"
  show ?thesis
  proof (cases "length ?xs < 2")
    case True
    then show ?thesis
      by (simp add: nanstd_def present_column_values spec_responsiveness_def fillna0_def Let_def)
  next
    case False
    then have "real (length ?xs - 1) = real (length ?xs) - 1"
      by (simp add: of_nat_diff)
    with False show ?thesis
      by (simp add: nanstd_def present_column_values spec_responsiveness_def fillna0_def Let_def)
  qed
qed

lemma responsiveness_spec:
  "responsiveness df
   = filter (\<lambda>(p, s). epsilon < s)
       (map (\<lambda>p. (p, spec_responsiveness (defined_cells df p))) (columns df))"
  by (simp add: responsiveness_def std_fillna_def std_is_spec_responsiveness)

lemma responsiveness_empty_frame: "responsiveness empty_frame = []"
  by (simp add: responsiveness_def std_fillna_def empty_frame_def)

text \<open>
  C5. The responsiveness of a parameter is the sample standard deviation of the defined
  cells of its column of the improvement matrix (undefined cells are left out, not counted
  as zero), taken as 0 where that is undefined; the parameters kept are those whose
  responsiveness exceeds \<open>epsilon = 1e-9\<close>, so every parameter below it is discarded;
  and when none is kept, or the total is zero, the weights, the scores and the ranking
  stay empty.
\<close>

theorem responsiveness_estimator:
  assumes "R = perform_full_hand_analysis srt d h b lam"
  shows "responsiveness_scores R
           = filter (\<lambda>(p, s). epsilon < s)
               (map (\<lambda>p. (p, spec_responsiveness (defined_cells (improvement_df R) p)))
                    (columns (improvement_df R)))
       \<and> (\<forall>p \<in> set (columns (improvement_df R)).
             spec_responsiveness (defined_cells (improvement_df R) p) < epsilon
             \<longrightarrow> p \<notin> fst ` set (responsiveness_scores R))
       \<and> (responsiveness_scores R = [] \<or> sum_list (map snd (responsiveness_scores R)) = 0
             \<longrightarrow> final_dynamic_weights R = [] \<and> dynamic_scores R = []
                 \<and> ranked_names R = [] \<and> ranked_scores R = [])"
proof -
  let ?S = "aggregate_task_data_by_hand d h"
  have eq: "responsiveness_scores R = responsiveness (improvement_df R)"
  proof (cases "reaches_improvement ?S b")
    case True
    then show ?thesis
      using assms by (simp add: pfha_responsiveness pfha_improvement_df)
  next
    case False
    then show ?thesis
      using assms by (simp add: pfha_aborted initial_results_def responsiveness_empty_frame)
  qed
  have first: "responsiveness_scores R
           = filter (\<lambda>(p, s). epsilon < s)
               (map (\<lambda>p. (p, spec_responsiveness (defined_cells (improvement_df R) p)))
                    (columns (improvement_df R)))"
    by (simp add: eq responsiveness_spec)
  have second: "\<forall>p \<in> set (columns (improvement_df R)).
             spec_responsiveness (defined_cells (improvement_df R) p) < epsilon
             \<longrightarrow> p \<notin> fst ` set (responsiveness_scores R)"
    unfolding first by auto
  have third: "final_dynamic_weights R = [] \<and> dynamic_scores R = []
                 \<and> ranked_names R = [] \<and> ranked_scores R = []"
    if "responsiveness_scores R = [] \<or> sum_list (map snd (responsiveness_scores R)) = 0"
  proof (cases "reaches_improvement ?S b")
    case True
    have rs: "responsiveness_scores R = responsiveness (improvement_of ?S b)"
      using True assms by (simp add: pfha_responsiveness)
    have "responsiveness (improvement_of ?S b) = []"
    proof (rule ccontr)
      assume "responsiveness (improvement_of ?S b) \<noteq> []"
      then have "0 < sum_list (map snd (responsiveness (improvement_of ?S b)))"
        by (rule responsiveness_sum_pos)
      with that \<open>responsiveness (improvement_of ?S b) \<noteq> []\<close> show False
        by (simp add: rs)
    qed
    from pfha_no_responsive[OF True this] show ?thesis
      using assms by (simp add: initial_results_def)
  next
    case False
    then show ?thesis
      using assms by (simp add: pfha_aborted initial_results_def)
  qed
  from first second third show ?thesis by blast
qed

lemma scenario_A_reaches:
  "reaches_improvement (aggregate_task_data_by_hand scenario_A ''Right'') ''Med Off - DBS Off''"
  by code_simp

lemma scenario_A_improvement:
  "index (improvement_of (aggregate_task_data_by_hand scenario_A ''Right'') ''Med Off - DBS Off'')
     = [''DBS On - Pr1'']"
  "columns (improvement_of (aggregate_task_data_by_hand scenario_A ''Right'') ''Med Off - DBS Off'')
     = [''MeanSpeed'']"
  "value_at (improvement_of (aggregate_task_data_by_hand scenario_A ''Right'') ''Med Off - DBS Off'')
     ''DBS On - Pr1'' ''MeanSpeed'' = Some 3"
  by code_simp+

lemma scenario_A_results_improvement:
  "improvement_df scenario_A_results
   = improvement_of (aggregate_task_data_by_hand scenario_A ''Right'') ''Med Off - DBS Off''"
  unfolding scenario_A_results_def by (rule pfha_improvement_df[OF scenario_A_reaches])

lemma scenario_A_cells:
  "defined_cells (improvement_df scenario_A_results) ''MeanSpeed'' = [3]"
  by (simp add: scenario_A_results_improvement defined_cells_def scenario_A_improvement)

theorem responsiveness_estimator_witness:
  "''MeanSpeed'' \<in> set (columns (improvement_df scenario_A_results))
   \<and> spec_responsiveness (defined_cells (improvement_df scenario_A_results) ''MeanSpeed'') < epsilon
   \<and> ''MeanSpeed'' \<notin> fst ` set (responsiveness_scores scenario_A_results)
   \<and> responsiveness_scores scenario_A_results = []
   \<and> final_dynamic_weights scenario_A_results = [] \<and> dynamic_scores scenario_A_results = []
   \<and> ranked_names scenario_A_results = [] \<and> ranked_scores scenario_A_results = []"
proof -
  have p: "''MeanSpeed'' \<in> set (columns (improvement_df scenario_A_results))"
    by (simp add: scenario_A_results_improvement scenario_A_improvement)
  have s: "spec_responsiveness (defined_cells (improvement_df scenario_A_results) ''MeanSpeed'') < epsilon"
    by (simp add: scenario_A_cells spec_responsiveness_def epsilon_def)
  have cols: "columns (improvement_df scenario_A_results) = [''MeanSpeed'']"
    by (simp add: scenario_A_results_improvement scenario_A_improvement)
  have e: "responsiveness_scores scenario_A_results = []"
    using responsiveness_estimator[OF scenario_A_results_def] s
    by (simp add: cols)
  show ?thesis
    using responsiveness_estimator[OF scenario_A_results_def] p s e by simp
qed

subsection \<open>The Composite Scorer and Ranker\<close>

lemma sorts_descending_stable: "sorts_descending stable_descending"
proof -
  have "sorted_wrt (\<lambda>a b. snd b \<le> snd a) (sort_key (\<lambda>x. - snd x) xs)"
    for xs :: "(string \<times> real) list"
    using sorted_sort_key[of "\<lambda>x. - snd x" xs] by (simp add: sorted_map)
  then show ?thesis
    by (simp add: sorts_descending_def stable_descending_def)
qed




lemma defined_scores_map_Some [simp]:
  "defined_scores (map (\<lambda>(c, x). (c, Some x)) xs) = xs"
  by (induction xs) (auto simp: defined_scores_def)


lemma present_map_Some [simp]: "present (map Some xs) = xs"
  by (induction xs) (simp_all add: present_def)

lemma present_append [simp]: "present (xs @ ys) = present xs @ present ys"
  by (induction xs) (simp_all add: present_def split: option.split)






lemma pfha_ranking:
  "zip (ranked_names (perform_full_hand_analysis srt d h b lam))
       (ranked_scores (perform_full_hand_analysis srt d h b lam))
   = sort_values_descending srt (dynamic_scores (perform_full_hand_analysis srt d h b lam))
   \<or> (ranked_names (perform_full_hand_analysis srt d h b lam) = []
      \<and> ranked_scores (perform_full_hand_analysis srt d h b lam) = []
      \<and> dynamic_scores (perform_full_hand_analysis srt d h b lam) = [])"
proof (cases "reaches_improvement (aggregate_task_data_by_hand d h) b")
  case True
  show ?thesis
  proof (cases "responsiveness (improvement_of (aggregate_task_data_by_hand d h) b) = []")
    case True
    from pfha_no_responsive[OF \<open>reaches_improvement _ _\<close> this] show ?thesis
      by (simp add: initial_results_def)
  next
    case False
    from pfha_ranked[OF True False] show ?thesis
      by (simp add: zip_map_fst_snd)
  qed
next
  case False
  then show ?thesis by (simp add: pfha_aborted initial_results_def)
qed

lemma sqrt_quarter_gt_epsilon:
  assumes "1 / 4 \<le> x"
  shows "epsilon < sqrt x"
proof -
  have "(1 / 2)\<^sup>2 \<le> x" using assms by (simp add: power2_eq_square)
  then have a: "1 / 2 \<le> sqrt x" by (rule real_le_rsqrt)
  have b: "epsilon < 1 / 2" by (simp add: epsilon_def)
  from b a show ?thesis by (rule less_le_trans)
qed











subsection \<open>Undefined cells in the scores\<close>

lemma foldl_nan_None: "foldl (nan_lift2 f) None xs = None"
  by (induction xs) simp_all

lemma foldl_nan_mem_None: "None \<in> set xs \<Longrightarrow> foldl (nan_lift2 f) a xs = None"
proof (induction xs arbitrary: a)
  case Nil
  then show ?case by simp
next
  case (Cons x xs)
  show ?case
  proof (cases "x = None")
    case True
    then show ?thesis by (cases a) (simp_all add: foldl_nan_None)
  next
    case False
    with Cons.prems have "None \<in> set xs" by auto
    then show ?thesis by (simp add: Cons.IH)
  qed
qed

lemma dot_row_None:
  assumes "p \<in> set ps" and "value_at df c p = None"
  shows "dot_row df w ps c = None"
proof -
  have "nan_lift2 (*) (value_at df c p) (map_of w p) = None"
    using assms(2) by simp
  moreover have "nan_lift2 (*) (value_at df c p) (map_of w p)
                   \<in> (\<lambda>p. nan_lift2 (*) (value_at df c p) (map_of w p)) ` set ps"
    using assms(1) by (rule imageI)
  ultimately have "None \<in> set (map (\<lambda>p. nan_lift2 (*) (value_at df c p) (map_of w p)) ps)"
    by simp
  then show ?thesis
    unfolding dot_row_def by (rule foldl_nan_mem_None)
qed

lemma set_defined_scores: "(c, x) \<in> set (defined_scores s) \<longleftrightarrow> (c, Some x) \<in> set s"
  by (induction s) (auto simp: defined_scores_def split: option.split)

lemma blend_weights_keys: "map fst (blend_weights lam rs) = map fst rs"
  by (simp add: blend_weights_def Let_def case_prod_beta comp_def)

lemma pfha_weights_reach:
  assumes "final_dynamic_weights (perform_full_hand_analysis srt d h b lam) \<noteq> []"
  shows "reaches_improvement (aggregate_task_data_by_hand d h) b
         \<and> responsiveness (improvement_of (aggregate_task_data_by_hand d h) b) \<noteq> []"
proof (rule ccontr)
  assume "\<not> ?thesis"
  then have "perform_full_hand_analysis srt d h b lam
               = initial_results (aggregate_task_data_by_hand d h)
             \<or> perform_full_hand_analysis srt d h b lam
               = (initial_results (aggregate_task_data_by_hand d h))
                   \<lparr>improvement_df := improvement_of (aggregate_task_data_by_hand d h) b\<rparr>"
    using pfha_aborted[of d h b srt lam] pfha_no_responsive[of d h b srt lam] by blast
  then have "final_dynamic_weights (perform_full_hand_analysis srt d h b lam) = []"
    by (auto simp: initial_results_def)
  with assms show False by simp
qed

lemma ranked_position:
  fixes A B :: "(string \<times> real option) list"
  assumes "c \<notin> fst ` set A" and "\<forall>x \<in> set B. snd x = None"
      and "i < length (A @ B)" and "map fst (A @ B) ! i = c"
      and "j < length (A @ B)" and "map snd (A @ B) ! j \<noteq> None"
  shows "j < i"
proof -
  have iA: "\<not> i < length A"
  proof
    assume a: "i < length A"
    then have "(A @ B) ! i = A ! i" by (simp add: nth_append)
    moreover have "map fst (A @ B) ! i = fst ((A @ B) ! i)" using assms(3) by (rule nth_map)
    ultimately have "fst (A ! i) = c" using assms(4) by simp
    moreover have "A ! i \<in> set A" using a by (rule nth_mem)
    ultimately show False using assms(1) by (metis image_eqI)
  qed
  have jA: "j < length A"
  proof (rule ccontr)
    assume n: "\<not> j < length A"
    then have b: "j - length A < length B" using assms(5) by simp
    have "(A @ B) ! j = B ! (j - length A)" using n by (simp add: nth_append)
    moreover have "map snd (A @ B) ! j = snd ((A @ B) ! j)" using assms(5) by (rule nth_map)
    ultimately have "snd (B ! (j - length A)) \<noteq> None" using assms(6) by simp
    moreover have "B ! (j - length A) \<in> set B" using b by (rule nth_mem)
    ultimately show False using assms(2) by auto
  qed
  from iA jA show ?thesis by simp
qed

lemma missing_reaches:
  "reaches_improvement (aggregate_task_data_by_hand missing_data ''Right'') example_baseline"
  by code_simp

lemma missing_improvement_shape:
  "index (improvement_of (aggregate_task_data_by_hand missing_data ''Right'') example_baseline)
     = [''Med Off - DBS On - Pr1'', ''Med Off - DBS On - Pr2'', ''Med Off - DBS On - Pr3'']"
  "columns (improvement_of (aggregate_task_data_by_hand missing_data ''Right'') example_baseline)
     = [''MeanSpeed'', ''MeanAmplitude'']"
  by code_simp+

lemma missing_improvement_columns:
  "column_values (improvement_of (aggregate_task_data_by_hand missing_data ''Right'') example_baseline)
     ''MeanSpeed'' = [Some 1, Some 2, Some 3]"
  "column_values (improvement_of (aggregate_task_data_by_hand missing_data ''Right'') example_baseline)
     ''MeanAmplitude'' = [Some 2, None, Some 1]"
  by code_simp+

lemma missing_improvement_cell:
  "value_at (improvement_of (aggregate_task_data_by_hand missing_data ''Right'') example_baseline)
     ''Med Off - DBS On - Pr2'' ''MeanAmplitude'' = None"
  by code_simp

lemma nanstd_one_two_three: "nanstd [Some 1, Some 2, Some 3] = Some 1"
  by (simp add: nanstd_def present_def)

lemma nanstd_with_gap: "nanstd [Some a, None, Some b] = Some (sqrt ((a - b)\<^sup>2 / 2))"
proof -
  have "nanstd [Some a, None, Some b] = nanstd [Some a, Some b]"
    by (simp add: nanstd_def present_def)
  then show ?thesis by (simp only: nanstd_two)
qed

lemma epsilon_less_one: "epsilon < 1"
  by (simp add: epsilon_def)

lemma missing_responsiveness:
  "responsiveness (improvement_of (aggregate_task_data_by_hand missing_data ''Right'') example_baseline)
   = [(''MeanSpeed'', 1), (''MeanAmplitude'', sqrt (1 / 2))]"
  by (simp add: responsiveness_def std_fillna_def missing_improvement_shape
      missing_improvement_columns nanstd_one_two_three nanstd_with_gap fillna0_def
      sqrt_quarter_gt_epsilon epsilon_less_one)

lemma missing_results_improvement:
  "improvement_df missing_results
   = improvement_of (aggregate_task_data_by_hand missing_data ''Right'') example_baseline"
  unfolding missing_results_def by (rule pfha_improvement_df[OF missing_reaches])

lemma missing_results_weight_keys:
  "map fst (final_dynamic_weights missing_results) = [''MeanSpeed'', ''MeanAmplitude'']"
proof -
  have ne: "responsiveness (improvement_of (aggregate_task_data_by_hand missing_data ''Right'')
              example_baseline) \<noteq> []"
    by (simp add: missing_responsiveness)
  show ?thesis
    unfolding missing_results_def pfha_weights[OF missing_reaches ne] blend_weights_keys
    by (simp add: missing_responsiveness)
qed

text \<open>
  C10. When the improvement row of a condition has an undefined cell in a parameter of
  the common parameter set, the score of the condition is undefined, not a sum over the
  other parameters, and in the ranking the condition stands after every position that
  holds a defined score.
\<close>

theorem undefined_cell_ranks_last:
  assumes "sorts_descending srt"
      and "R = perform_full_hand_analysis srt d h b lam"
      and "c \<in> set (index (improvement_df R))"
      and "p \<in> set (common_params (improvement_df R) (final_dynamic_weights R))"
      and "value_at (improvement_df R) c p = None"
  shows "(c, None) \<in> set (dynamic_scores R)
       \<and> (\<forall>v. (c, v) \<in> set (dynamic_scores R) \<longrightarrow> v = None)
       \<and> length (ranked_scores R) = length (ranked_names R)
       \<and> c \<in> set (ranked_names R)
       \<and> (\<forall>i j. i < length (ranked_names R) \<and> ranked_names R ! i = c
                 \<and> j < length (ranked_scores R) \<and> ranked_scores R ! j \<noteq> None \<longrightarrow> j < i)"
proof -
  let ?S = "aggregate_task_data_by_hand d h"
  let ?imp = "improvement_df R"
  let ?w = "final_dynamic_weights R"
  let ?ds = "dynamic_scores R"
  let ?A = "map (\<lambda>(c, x). (c, Some x)) (srt (defined_scores ?ds))"
  let ?B = "filter (\<lambda>(c, v). v = None) ?ds"
  have "?w \<noteq> []"
    using assms(4) by (auto simp: common_params_def)
  then have reach: "reaches_improvement ?S b" and ne: "responsiveness (improvement_of ?S b) \<noteq> []"
    using pfha_weights_reach[of srt d h b lam] assms(2) by simp_all
  have ds: "?ds = dot_scores ?imp ?w"
    using assms(2) by (simp add: pfha_dynamic_scores[OF reach ne] pfha_weights[OF reach ne]
        pfha_improvement_df[OF reach])
  have score: "dot_row ?imp ?w (common_params ?imp ?w) c = None"
    using assms(4,5) by (rule dot_row_None)
  have mem: "(c, None) \<in> set ?ds"
    using assms(3) score by (force simp: ds dot_scores_def)
  have only: "v = None" if "(c, v) \<in> set ?ds" for v
    using that score by (auto simp: ds dot_scores_def)
  have names: "ranked_names R = map fst (?A @ ?B)" and scores: "ranked_scores R = map snd (?A @ ?B)"
    using assms(2) pfha_ranked[OF reach ne, of srt lam]
    by (simp_all add: sort_values_descending_def)
  have len: "length (ranked_scores R) = length (ranked_names R)"
    by (simp add: names scores)
  have inB: "(c, None) \<in> set ?B"
    using mem by simp
  then have cmem: "c \<in> set (ranked_names R)"
    unfolding names by force
  have setA: "set (srt (defined_scores ?ds)) = set (defined_scores ?ds)"
    using assms(1) by (metis sorts_descending_def set_mset_mset)
  have notA: "c \<notin> fst ` set ?A"
  proof
    assume "c \<in> fst ` set ?A"
    then obtain x where "(c, x) \<in> set (srt (defined_scores ?ds))" by force
    then have "(c, Some x) \<in> set ?ds"
      by (simp add: setA set_defined_scores)
    from only[OF this] show False by simp
  qed
  have allB: "\<forall>x \<in> set ?B. snd x = None"
    by auto
  have order: "j < i"
    if "i < length (ranked_names R)" "ranked_names R ! i = c"
       "j < length (ranked_scores R)" "ranked_scores R ! j \<noteq> None" for i j
    using that unfolding names scores length_map
    by (rule ranked_position[OF notA allB])
  from mem only len cmem order show ?thesis by blast
qed

theorem undefined_cell_ranks_last_witness:
  "sorts_descending stable_descending
   \<and> ''Med Off - DBS On - Pr2'' \<in> set (index (improvement_df missing_results))
   \<and> ''MeanAmplitude''
       \<in> set (common_params (improvement_df missing_results) (final_dynamic_weights missing_results))
   \<and> value_at (improvement_df missing_results) ''Med Off - DBS On - Pr2'' ''MeanAmplitude'' = None
   \<and> (''Med Off - DBS On - Pr2'', None) \<in> set (dynamic_scores missing_results)
   \<and> length (ranked_scores missing_results) = length (ranked_names missing_results)
   \<and> ''Med Off - DBS On - Pr2'' \<in> set (ranked_names missing_results)"
proof -
  have c: "''Med Off - DBS On - Pr2'' \<in> set (index (improvement_df missing_results))"
    by (simp add: missing_results_improvement missing_improvement_shape)
  have p: "''MeanAmplitude''
       \<in> set (common_params (improvement_df missing_results) (final_dynamic_weights missing_results))"
    by (simp add: common_params_def missing_results_weight_keys missing_results_improvement
        missing_improvement_shape)
  have v: "value_at (improvement_df missing_results) ''Med Off - DBS On - Pr2'' ''MeanAmplitude'' = None"
    by (simp add: missing_results_improvement missing_improvement_cell)
  show ?thesis
    using undefined_cell_ranks_last[OF sorts_descending_stable missing_results_def c p v]
          sorts_descending_stable c p v
    by blast
qed

subsection \<open>The Trial Aggregator\<close>

lemma set_unique_labels [simp]: "set (unique_labels xs) = set xs"
  by (induction xs) auto

lemma aggregate_fields:
  "index (aggregate_task_data_by_hand (TaskDict items) hand)
     = filter (\<lambda>c. \<exists>p \<in> set (columns (aggregate_task_data_by_hand (TaskDict items) hand)).
                    value_at (aggregate_task_data_by_hand (TaskDict items) hand) c p \<noteq> None)
         (sort_key sort_condition_key (map fst (aggregated_data items hand)))"
  "columns (aggregate_task_data_by_hand (TaskDict items) hand)
     = unique_labels (concat (map (\<lambda>(c, s). map fst s) (aggregated_data items hand)))"
  "value_at (aggregate_task_data_by_hand (TaskDict items) hand) c p
     = (case map_of (aggregated_data items hand) c of None \<Rightarrow> None | Some s \<Rightarrow> series_get s p)"
  by (simp_all add: aggregate_task_data_by_hand.simps Let_def empty_frame_def frame_of_rows_def
      reindex_def dropna_all_def)

declare aggregate_task_data_by_hand.simps [simp del]

lemma aggregated_data_absent:
  "c \<notin> fst ` set items \<Longrightarrow> map_of (aggregated_data items hand) c = None"
  by (induction items)
     (auto simp: aggregated_data_def List.map_filter_simps split: option.split)

lemma aggregated_data_Cons:
  "aggregated_data ((c, e) # items) hand
   = (case aggregate_condition hand e of
        None \<Rightarrow> aggregated_data items hand
      | Some s \<Rightarrow> (c, s) # aggregated_data items hand)"
  by (simp add: aggregated_data_def split: option.split)

lemma aggregated_data_lookup:
  assumes "distinct (map fst items)" and "(c, e) \<in> set items"
  shows "map_of (aggregated_data items hand) c = aggregate_condition hand e"
  using assms
proof (induction items)
  case Nil
  then show ?case by simp
next
  case (Cons a items)
  obtain c' e' where a: "a = (c', e')" by (cases a)
  show ?case
  proof (cases "c' = c")
    case True
    then have "e' = e" and "c \<notin> fst ` set items"
      using Cons.prems a by (auto simp: image_iff)
    then show ?thesis
      using True by (simp add: a aggregated_data_Cons aggregated_data_absent split: option.split)
  next
    case False
    then have "(c, e) \<in> set items" and "distinct (map fst items)"
      using Cons.prems a by auto
    then show ?thesis
      using False by (simp add: a aggregated_data_Cons Cons.IH split: option.split)
  qed
qed

lemma series_get_trial:
  "trial_series t = Some s \<Longrightarrow> series_get s p = trial_value t p"
proof (cases t)
  case (DataFrame rows)
  assume "trial_series t = Some s"
  then have s: "s = map (\<lambda>(a, v). (a, to_numeric v)) rows"
    using DataFrame by simp
  have "map_of (map (\<lambda>(a, v). (a, to_numeric v)) rows) p = map_option to_numeric (map_of rows p)"
    by (induction rows) auto
  then show ?thesis
    unfolding s DataFrame series_get_def
    by (auto split: option.split raw_value.split)
next
  case NotAFrame
  assume "trial_series t = Some s"
  then show ?thesis using NotAFrame by simp
qed

lemma present_series_list:
  "present (map (\<lambda>s. series_get s p) (series_list_of dfs))
   = List.map_filter (\<lambda>t. trial_value t p) dfs"
proof (induction dfs)
  case Nil
  then show ?case by (simp add: present_def series_list_of_def)
next
  case (Cons t dfs)
  show ?case
  proof (cases "trial_series t")
    case None
    then have "t = NotAFrame" by (cases t) simp_all
    then show ?thesis
      using Cons.IH by (simp add: series_list_of_def)
  next
    case (Some s)
    have "series_list_of (t # dfs) = s # series_list_of dfs"
      using Some by (simp add: series_list_of_def)
    then show ?thesis
      using Cons.IH series_get_trial[OF Some, of p]
      by (simp add: present_def split: option.split)
  qed
qed

lemma series_get_absent:
  assumes "p \<notin> fst ` set s"
  shows "series_get s p = None"
proof -
  have "map_of s p = None" using assms by (simp add: map_of_eq_None_iff)
  then show ?thesis by (simp add: series_get_def)
qed

lemma present_all_absent: "\<forall>c \<in> set cs. c = None \<Longrightarrow> present cs = []"
  by (induction cs) (simp_all add: present_def)

lemma series_get_concat_mean:
  "series_get (concat_mean ss) p = nanmean (map (\<lambda>s. series_get s p) ss)"
proof (cases "p \<in> set (concat (map (map fst) ss))")
  case True
  have "map_of (map (\<lambda>p. (p, f p)) xs) p = (if p \<in> set xs then Some (f p) else None)"
    for f :: "string \<Rightarrow> real option" and xs
    by (induction xs) auto
  then show ?thesis
    using True by (simp add: series_get_def concat_mean_def)
next
  case False
  then have "\<forall>s \<in> set ss. series_get s p = None"
    by (auto intro!: series_get_absent)
  then have "present (map (\<lambda>s. series_get s p) ss) = []"
    by (intro present_all_absent) auto
  moreover have "map_of (concat_mean ss) p = None"
    using False by (simp add: concat_mean_def map_of_eq_None_iff image_iff)
  ultimately show ?thesis
    by (simp add: series_get_def nanmean_def)
qed

lemma series_list_of_empty: "series_list_of dfs = [] \<longleftrightarrow> (\<forall>t \<in> set dfs. t = NotAFrame)"
proof (induction dfs)
  case Nil
  then show ?case by (simp add: series_list_of_def)
next
  case (Cons t dfs)
  then show ?case by (cases t) (simp_all add: series_list_of_def)
qed

lemma aggregate_index_mem:
  "c \<in> set (index (aggregate_task_data_by_hand (TaskDict items) hand))
   \<longleftrightarrow> c \<in> fst ` set (aggregated_data items hand)
       \<and> (\<exists>p \<in> set (columns (aggregate_task_data_by_hand (TaskDict items) hand)).
             value_at (aggregate_task_data_by_hand (TaskDict items) hand) c p \<noteq> None)"
  by (subst aggregate_fields(1)) simp

lemma aggregate_columns_mem:
  "q \<in> set (columns (aggregate_task_data_by_hand (TaskDict items) hand))
   \<longleftrightarrow> (\<exists>x \<in> set (aggregated_data items hand). q \<in> fst ` set (snd x))"
  by (simp add: aggregate_fields(2) case_prod_beta)

text \<open>
  C7. For a condition with at least one trial table for the target hand, every cell of
  its summary row is the mean of the parameter over the trials in which it is present,
  a value that is not numeric counting as missing; a parameter missing from all trials
  of the condition gives an undefined cell, not zero. The row stays in the summary
  exactly when some parameter has a defined mean.
\<close>

theorem summary_cell_is_mean_of_present:
  assumes "well_formed (TaskDict items)"
      and "(c, e) \<in> set items"
      and "hand_trials e hand = Some dfs"
      and "\<exists>t \<in> set dfs. t \<noteq> NotAFrame"
  shows "value_at (aggregate_task_data_by_hand (TaskDict items) hand) c p = spec_cell_mean dfs p
       \<and> ((\<forall>t \<in> set dfs. trial_value t p = None)
            \<longrightarrow> value_at (aggregate_task_data_by_hand (TaskDict items) hand) c p = None)
       \<and> (c \<in> set (index (aggregate_task_data_by_hand (TaskDict items) hand))
            \<longleftrightarrow> (\<exists>q. spec_cell_mean dfs q \<noteq> None))"
proof -
  let ?S = "aggregate_task_data_by_hand (TaskDict items) hand"
  let ?ss = "series_list_of dfs"
  have dist: "distinct (map fst items)" using assms(1) by simp
  have ne: "?ss \<noteq> []" using assms(4) by (simp add: series_list_of_empty)
  have agg: "aggregate_condition hand e = Some (concat_mean ?ss)"
    using assms(3) ne by (simp add: aggregate_condition_def)
  have look: "map_of (aggregated_data items hand) c = Some (concat_mean ?ss)"
    using aggregated_data_lookup[OF dist assms(2)] agg by simp
  have cell: "value_at ?S c q = spec_cell_mean dfs q" for q
    by (simp add: aggregate_fields(3) look series_get_concat_mean nanmean_def
        present_series_list spec_cell_mean_def)
  have none: "value_at ?S c p = None" if "\<forall>t \<in> set dfs. trial_value t p = None"
  proof -
    have "List.map_filter (\<lambda>t. trial_value t p) dfs = []"
      using that by (induction dfs) simp_all
    then show ?thesis by (simp add: cell spec_cell_mean_def)
  qed
  have pair: "(c, concat_mean ?ss) \<in> set (aggregated_data items hand)"
    using look by (rule map_of_SomeD)
  then have cin: "c \<in> fst ` set (aggregated_data items hand)"
    by (rule image_eqI[rotated]) simp
  have row: "c \<in> set (index ?S) \<longleftrightarrow> (\<exists>q. spec_cell_mean dfs q \<noteq> None)"
  proof
    assume "c \<in> set (index ?S)"
    then obtain q where "value_at ?S c q \<noteq> None"
      unfolding aggregate_index_mem by blast
    then have "spec_cell_mean dfs q \<noteq> None" by (simp add: cell)
    then show "\<exists>q. spec_cell_mean dfs q \<noteq> None" ..
  next
    assume "\<exists>q. spec_cell_mean dfs q \<noteq> None"
    then obtain q where "spec_cell_mean dfs q \<noteq> None" ..
    then have q: "value_at ?S c q \<noteq> None" by (simp add: cell)
    then have sg: "series_get (concat_mean ?ss) q \<noteq> None"
      by (simp add: aggregate_fields(3) look)
    have "q \<in> fst ` set (concat_mean ?ss)"
    proof (rule ccontr)
      assume "q \<notin> fst ` set (concat_mean ?ss)"
      then have "series_get (concat_mean ?ss) q = None" by (rule series_get_absent)
      with sg show False by simp
    qed
    with pair have "q \<in> set (columns ?S)"
      unfolding aggregate_columns_mem by (intro bexI[of _ "(c, concat_mean ?ss)"]) simp_all
    with q cin show "c \<in> set (index ?S)"
      unfolding aggregate_index_mem by blast
  qed
  from cell none row show ?thesis by blast
qed

subsection \<open>The order of the rows of the summary\<close>










subsection \<open>The worked example, aggregated\<close>

lemma example_well_formed: "well_formed (TaskDict example_items)"
  by code_simp

lemma example_pr1_entry:
  "(''Med Off - DBS On - Pr1'', HandDict [(''Right'', example_pr1_trials)]) \<in> set example_items"
  by (simp add: example_items_def)

lemma example_pr1_has_table: "\<exists>t \<in> set example_pr1_trials. t \<noteq> NotAFrame"
  by (simp add: example_pr1_trials_def)

lemma example_pr1_means:
  "spec_cell_mean example_pr1_trials ''MeanSpeed'' = Some 11"
  "spec_cell_mean example_pr1_trials ''StdSpeed'' = Some 3"
  "spec_cell_mean example_pr1_trials ''Frequency'' = None"
  by (simp_all add: spec_cell_mean_def example_pr1_trials_def)

theorem summary_cell_is_mean_of_present_witness:
  "well_formed (TaskDict example_items)
   \<and> (''Med Off - DBS On - Pr1'', HandDict [(''Right'', example_pr1_trials)]) \<in> set example_items
   \<and> hand_trials (HandDict [(''Right'', example_pr1_trials)]) ''Right'' = Some example_pr1_trials
   \<and> value_at (aggregate_task_data_by_hand (TaskDict example_items) ''Right'')
        ''Med Off - DBS On - Pr1'' ''MeanSpeed'' = Some 11
   \<and> value_at (aggregate_task_data_by_hand (TaskDict example_items) ''Right'')
        ''Med Off - DBS On - Pr1'' ''StdSpeed'' = Some 3
   \<and> value_at (aggregate_task_data_by_hand (TaskDict example_items) ''Right'')
        ''Med Off - DBS On - Pr1'' ''Frequency'' = None
   \<and> ''Med Off - DBS On - Pr1''
       \<in> set (index (aggregate_task_data_by_hand (TaskDict example_items) ''Right''))"
proof -
  have h: "hand_trials (HandDict [(''Right'', example_pr1_trials)]) ''Right''
           = Some example_pr1_trials"
    by simp
  have q: "\<exists>q. spec_cell_mean example_pr1_trials q \<noteq> None"
    using example_pr1_means(1) by (intro exI[of _ "''MeanSpeed''"]) simp
  show ?thesis
    using summary_cell_is_mean_of_present[OF example_well_formed example_pr1_entry h
            example_pr1_has_table, of "''MeanSpeed''"]
          summary_cell_is_mean_of_present[OF example_well_formed example_pr1_entry h
            example_pr1_has_table, of "''StdSpeed''"]
          summary_cell_is_mean_of_present[OF example_well_formed example_pr1_entry h
            example_pr1_has_table, of "''Frequency''"]
          example_well_formed example_pr1_entry h example_pr1_has_table example_pr1_means q
    by simp
qed

subsection \<open>The order of the trials\<close>
















end
